theory Spec2Isabelle
  imports Main
begin

section \<open>Python values\<close>

text \<open>
  A Python \<open>str\<close> is a sequence of Unicode code points, and slicing counts code points.
  A \<^typ>\<open>char\<close> of HOL is one byte, so a string is modelled as a list of code points;
  \<open>ustr\<close> embeds an ASCII literal.
\<close>

type_synonym pystr = "nat list"

definition ustr :: "string \<Rightarrow> pystr" where
  "ustr s = map of_char s"

text \<open>
  The values \<open>response.json()\<close> can return. A dict is an association list, looked up
  with \<open>map_of\<close> (a Python dict holds each key once). A float is kept as what it denotes
  (\<open>Finite m e\<close> is \<open>m\<close> times two to the power \<open>e\<close>); the program only ever asks
  whether it is zero.
\<close>

datatype pyfloat = Finite int int | NegZero | Infinity bool | NaN

datatype pyval =
    PNone
  | PBool bool
  | PInt int
  | PFloat pyfloat
  | PStr pystr
  | PList "pyval list"
  | PDict "(pystr \<times> pyval) list"

type_synonym pydict = "(pystr \<times> pyval) list"

text \<open>
  The exceptions the program can meet: the three steps of an HTTP call, a method or an
  operator applied to the wrong kind of object, a missing dict key, and \<open>APIError\<close>
  for whatever the completion call raises.
\<close>

datatype exn =
    ConnectionError
  | HTTPError nat
  | JSONDecodeError
  | AttributeError
  | TypeError
  | KeyError pystr
  | APIError pystr

definition bindE :: "exn + 'a \<Rightarrow> ('a \<Rightarrow> exn + 'b) \<Rightarrow> exn + 'b" where
  "bindE m f = (case m of Inl e \<Rightarrow> Inl e | Inr x \<Rightarrow> f x)"

text \<open>Truth value of an object, as \<open>if x:\<close> and \<open>not x\<close> test it.\<close>

fun float_nonzero :: "pyfloat \<Rightarrow> bool" where
  "float_nonzero (Finite m e) = (m \<noteq> 0)"
| "float_nonzero NegZero = False"
| "float_nonzero (Infinity b) = True"
| "float_nonzero NaN = True"

fun truthy :: "pyval \<Rightarrow> bool" where
  "truthy PNone = False"
| "truthy (PBool b) = b"
| "truthy (PInt i) = (i \<noteq> 0)"
| "truthy (PFloat f) = float_nonzero f"
| "truthy (PStr s) = (s \<noteq> [])"
| "truthy (PList xs) = (xs \<noteq> [])"
| "truthy (PDict kvs) = (kvs \<noteq> [])"

text \<open>\<open>x.get(key, default)\<close>: only a dict has the method.\<close>

fun py_get :: "pyval \<Rightarrow> pystr \<Rightarrow> pyval \<Rightarrow> exn + pyval" where
  "py_get (PDict kvs) k d = Inr (case map_of kvs k of None \<Rightarrow> d | Some v \<Rightarrow> v)"
| "py_get PNone k d = Inl AttributeError"
| "py_get (PBool b) k d = Inl AttributeError"
| "py_get (PInt i) k d = Inl AttributeError"
| "py_get (PFloat f) k d = Inl AttributeError"
| "py_get (PStr s) k d = Inl AttributeError"
| "py_get (PList xs) k d = Inl AttributeError"

text \<open>\<open>r[key]\<close>, \<open>key in r\<close> and \<open>list(r)\<close> on a dict.\<close>

definition py_item :: "pydict \<Rightarrow> pystr \<Rightarrow> exn + pyval" where
  "py_item r k = (case map_of r k of None \<Rightarrow> Inl (KeyError k) | Some v \<Rightarrow> Inr v)"

definition has_key :: "pydict \<Rightarrow> pystr \<Rightarrow> bool" where
  "has_key r k = (map_of r k \<noteq> None)"

definition py_keys :: "pydict \<Rightarrow> pystr list" where
  "py_keys r = map fst r"

text \<open>
  \<open>xs[:n]\<close>: a negative bound counts from the end. Strings and lists can be sliced;
  a scalar raises \<open>TypeError\<close>, and so does a dict (\<open>KeyError\<close> in the newest
  interpreters, an \<open>Exception\<close> either way).
\<close>

definition slice_to :: "'a list \<Rightarrow> int \<Rightarrow> 'a list" where
  "slice_to xs n = (if 0 \<le> n then take (nat n) xs else take (length xs - nat (- n)) xs)"

fun py_slice_to :: "pyval \<Rightarrow> int \<Rightarrow> exn + pyval" where
  "py_slice_to (PStr s) n = Inr (PStr (slice_to s n))"
| "py_slice_to (PList xs) n = Inr (PList (slice_to xs n))"
| "py_slice_to (PDict kvs) n = Inl TypeError"
| "py_slice_to PNone n = Inl TypeError"
| "py_slice_to (PBool b) n = Inl TypeError"
| "py_slice_to (PInt i) n = Inl TypeError"
| "py_slice_to (PFloat f) n = Inl TypeError"

text \<open>\<open>x + '...'\<close> with a \<open>str\<close> on the right: only a \<open>str\<close> on the left is accepted.\<close>

fun py_add_str :: "pyval \<Rightarrow> pystr \<Rightarrow> exn + pyval" where
  "py_add_str (PStr s) t = Inr (PStr (s @ t))"
| "py_add_str PNone t = Inl TypeError"
| "py_add_str (PBool b) t = Inl TypeError"
| "py_add_str (PInt i) t = Inl TypeError"
| "py_add_str (PFloat f) t = Inl TypeError"
| "py_add_str (PList xs) t = Inl TypeError"
| "py_add_str (PDict kvs) t = Inl TypeError"

text \<open>
  What a \<open>for\<close> loop iterates over: the elements of a list, the one-character strings of
  a string, the keys of a dict; anything else is not iterable.
\<close>

fun py_iter :: "pyval \<Rightarrow> exn + pyval list" where
  "py_iter (PList xs) = Inr xs"
| "py_iter (PStr s) = Inr (map (\<lambda>c. PStr [c]) s)"
| "py_iter (PDict kvs) = Inr (map (\<lambda>kv. PStr (fst kv)) kvs)"
| "py_iter PNone = Inl TypeError"
| "py_iter (PBool b) = Inl TypeError"
| "py_iter (PInt i) = Inl TypeError"
| "py_iter (PFloat f) = Inl TypeError"

text \<open>\<open>s.replace(old, new)\<close> for one-character \<open>old\<close> and \<open>new\<close>.\<close>

definition py_replace :: "pystr \<Rightarrow> nat \<Rightarrow> nat \<Rightarrow> pystr" where
  "py_replace s old new = map (\<lambda>c. if c = old then new else c) s"

text \<open>A list comprehension whose element expression may raise.\<close>

fun mapE :: "('a \<Rightarrow> exn + 'b) \<Rightarrow> 'a list \<Rightarrow> exn + 'b list" where
  "mapE f [] = Inr []"
| "mapE f (x # xs) =
     (case f x of
        Inl e \<Rightarrow> Inl e
      | Inr y \<Rightarrow> (case mapE f xs of Inl e \<Rightarrow> Inl e | Inr ys \<Rightarrow> Inr (y # ys)))"

text \<open>\<open>sep.join(xs)\<close>.\<close>

fun join :: "pystr \<Rightarrow> pystr list \<Rightarrow> pystr" where
  "join sep [] = []"
| "join sep [x] = x"
| "join sep (x # y # ys) = x @ sep @ join sep (y # ys)"

text \<open>Decimal digits of a natural number, as \<open>str(i)\<close> prints a non-negative \<open>int\<close>.\<close>

fun dec :: "nat \<Rightarrow> pystr" where
  "dec n = (if n < 10 then [48 + n] else dec (n div 10) @ [48 + n mod 10])"

declare dec.simps [simp del]

section \<open>The network and the agent\<close>

text \<open>
  One outbound call is \<open>requests.get(url, params)\<close>, \<open>raise_for_status()\<close> and
  \<open>json()\<close> in a row: any of the three may raise, otherwise the decoded body is returned.
  Which statuses make \<open>raise_for_status\<close> raise is the library's decision, so the
  outcome of the three steps is what the network answers. The network has a state of its
  own, which a call may change; the requests sent are logged in order. Console output is
  not modelled.
\<close>

datatype request = Get pystr pydict

type_synonym 'w transport = "'w \<Rightarrow> request \<Rightarrow> (exn + pyval) \<times> 'w"

record 'w session =
  network :: 'w
  sent :: "request list"

definition get_json :: "'w transport \<Rightarrow> pystr \<Rightarrow> pydict \<Rightarrow> 'w session \<Rightarrow> (exn + pyval) \<times> 'w session" where
  "get_json net url params s =
     (case net (network s) (Get url params) of
        (a, w) \<Rightarrow> (a, \<lparr>network = w, sent = sent s @ [Get url params]\<rparr>))"

text \<open>
  The fields of \<open>WebSearchAgent\<close> the search reads; \<open>None\<close> is an unset credential
  (\<open>os.getenv\<close> of an undefined variable).
\<close>

record agent =
  search_api_key :: "pystr option"
  search_engine_id :: "pystr option"

definition opt_val :: "pystr option \<Rightarrow> pyval" where
  "opt_val x = (case x of None \<Rightarrow> PNone | Some s \<Rightarrow> PStr s)"

section \<open>The secondary provider\<close>

definition ddg_url :: pystr where
  "ddg_url = ustr ''https://api.duckduckgo.com/''"

definition ddg_params :: "pystr \<Rightarrow> pydict" where
  "ddg_params query =
     [(ustr ''q'', PStr query),
      (ustr ''format'', PStr (ustr ''json'')),
      (ustr ''no_html'', PStr (ustr ''1'')),
      (ustr ''skip_disambig'', PStr (ustr ''1''))]"

definition ellipsis :: pystr where
  "ellipsis = ustr ''...''"

text \<open>
  The methods \<open>_duckduckgo_search\<close> and \<open>_google_search\<close> lose their leading underscore
  here. Each is split into its \<open>try\<close> block and the handler around it.
\<close>

text \<open>The \<open>if data.get('Abstract')\<close> block: the results after it.\<close>

definition ddg_abstract :: "pystr \<Rightarrow> pyval \<Rightarrow> exn + pydict list" where
  "ddg_abstract query data =
     bindE (py_get data (ustr ''Abstract'') PNone) (\<lambda>a.
       if truthy a then
         bindE (py_get data (ustr ''Heading'') (PStr query)) (\<lambda>title.
         bindE (py_get data (ustr ''Abstract'') (PStr [])) (\<lambda>abstract.
         bindE (py_slice_to abstract 200) (\<lambda>cut.
         bindE (py_add_str cut ellipsis) (\<lambda>snippet.
         bindE (py_get data (ustr ''AbstractURL'') (PStr [])) (\<lambda>link.
           Inr [[(ustr ''title'', title),
                 (ustr ''snippet'', snippet),
                 (ustr ''link'', link)]])))))
       else Inr [])"

text \<open>The body of the loop over the related topics: the record appended, if any.\<close>

definition ddg_topic :: "pyval \<Rightarrow> exn + pydict option" where
  "ddg_topic topic =
     (case topic of
        PDict kvs \<Rightarrow>
          bindE (py_get topic (ustr ''Text'') PNone) (\<lambda>t.
            if truthy t then
              bindE (py_get topic (ustr ''Text'') (PStr [])) (\<lambda>t1.
              bindE (py_slice_to t1 50) (\<lambda>cut1.
              bindE (py_add_str cut1 ellipsis) (\<lambda>title.
              bindE (py_get topic (ustr ''Text'') (PStr [])) (\<lambda>t2.
              bindE (py_slice_to t2 200) (\<lambda>cut2.
              bindE (py_add_str cut2 ellipsis) (\<lambda>snippet.
              bindE (py_get topic (ustr ''FirstURL'') (PStr [])) (\<lambda>link.
                Inr (Some [(ustr ''title'', title),
                           (ustr ''snippet'', snippet),
                           (ustr ''link'', link),
                           (ustr ''source'', PStr (ustr ''DuckDuckGo''))]))))))))
            else Inr None)
      | _ \<Rightarrow> Inr None)"

fun ddg_loop :: "pydict list \<Rightarrow> pyval list \<Rightarrow> exn + pydict list" where
  "ddg_loop results [] = Inr results"
| "ddg_loop results (topic # topics) =
     (case ddg_topic topic of
        Inl e \<Rightarrow> Inl e
      | Inr None \<Rightarrow> ddg_loop results topics
      | Inr (Some r) \<Rightarrow> ddg_loop (results @ [r]) topics)"

text \<open>\<open>data.get('RelatedTopics', [])[:num_results - 1]\<close>, as the loop walks it.\<close>

definition ddg_related :: "pyval \<Rightarrow> int \<Rightarrow> exn + pyval list" where
  "ddg_related data num_results =
     bindE (py_get data (ustr ''RelatedTopics'') (PList [])) (\<lambda>topics.
     bindE (py_slice_to topics (num_results - 1)) py_iter)"

definition ddg_placeholder :: "pystr \<Rightarrow> pydict" where
  "ddg_placeholder query =
     [(ustr ''title'', PStr (ustr ''Search results for: '' @ query)),
      (ustr ''snippet'', PStr (ustr ''Found search query about '' @ query @
         ustr ''. More detailed results may require additional search APIs.'')),
      (ustr ''link'', PStr (ustr ''https://api.duckduckgo.com/?q='' @ py_replace query 32 43)),
      (ustr ''source'', PStr (ustr ''DuckDuckGo''))]"

text \<open>Everything in the \<open>try\<close> block after the body has been decoded.\<close>

definition ddg_results :: "pystr \<Rightarrow> int \<Rightarrow> pyval \<Rightarrow> exn + pydict list" where
  "ddg_results query num_results data =
     bindE (ddg_abstract query data) (\<lambda>results0.
     bindE (ddg_related data num_results) (\<lambda>topics.
     bindE (ddg_loop results0 topics) (\<lambda>results.
       Inr (if results = [] then results @ [ddg_placeholder query] else results))))"

definition fallback_result :: "pystr \<Rightarrow> pydict" where
  "fallback_result query =
     [(ustr ''title'', PStr (ustr ''Search: '' @ query)),
      (ustr ''snippet'', PStr (ustr ''Unable to fetch live search results. This would normally search for: '' @ query)),
      (ustr ''link'', PStr (ustr ''https://www.google.com/search?q='' @ py_replace query 32 43)),
      (ustr ''source'', PStr (ustr ''Fallback''))]"

text \<open>The \<open>try\<close> block of \<open>_duckduckgo_search\<close>: what it returns, or what it raises.\<close>

definition ddg_try :: "'w transport \<Rightarrow> pystr \<Rightarrow> int \<Rightarrow> 'w session \<Rightarrow> (exn + pydict list) \<times> 'w session" where
  "ddg_try net query num_results s =
     (case get_json net ddg_url (ddg_params query) s of
        (resp, s') \<Rightarrow> (bindE resp (ddg_results query num_results), s'))"

definition duckduckgo_search :: "'w transport \<Rightarrow> pystr \<Rightarrow> int \<Rightarrow> 'w session \<Rightarrow> pydict list \<times> 'w session" where
  "duckduckgo_search net query num_results s =
     (case ddg_try net query num_results s of
        (Inr results, s') \<Rightarrow> (results, s')
      | (Inl e, s') \<Rightarrow> ([fallback_result query], s'))"

section \<open>The primary provider\<close>

definition google_url :: pystr where
  "google_url = ustr ''https://www.googleapis.com/customsearch/v1''"

definition google_params :: "agent \<Rightarrow> pystr \<Rightarrow> int \<Rightarrow> pydict" where
  "google_params self query num_results =
     [(ustr ''key'', opt_val (search_api_key self)),
      (ustr ''cx'', opt_val (search_engine_id self)),
      (ustr ''q'', PStr query),
      (ustr ''num'', PInt (min num_results 10))]"

definition google_item :: "pyval \<Rightarrow> exn + pydict" where
  "google_item item =
     bindE (py_get item (ustr ''title'') (PStr [])) (\<lambda>title.
     bindE (py_get item (ustr ''snippet'') (PStr [])) (\<lambda>snippet.
     bindE (py_get item (ustr ''link'') (PStr [])) (\<lambda>link.
       Inr [(ustr ''title'', title),
            (ustr ''snippet'', snippet),
            (ustr ''link'', link),
            (ustr ''source'', PStr (ustr ''Google''))])))"

fun google_loop :: "pydict list \<Rightarrow> pyval list \<Rightarrow> exn + pydict list" where
  "google_loop results [] = Inr results"
| "google_loop results (item # items) =
     (case google_item item of
        Inl e \<Rightarrow> Inl e
      | Inr r \<Rightarrow> google_loop (results @ [r]) items)"

definition google_results :: "pyval \<Rightarrow> exn + pydict list" where
  "google_results data =
     bindE (py_get data (ustr ''items'') (PList [])) (\<lambda>items.
     bindE (py_iter items) (google_loop []))"

definition google_try :: "'w transport \<Rightarrow> agent \<Rightarrow> pystr \<Rightarrow> int \<Rightarrow> 'w session \<Rightarrow> (exn + pydict list) \<times> 'w session" where
  "google_try net self query num_results s =
     (case get_json net google_url (google_params self query num_results) s of
        (resp, s') \<Rightarrow> (bindE resp google_results, s'))"

definition google_search :: "'w transport \<Rightarrow> agent \<Rightarrow> pystr \<Rightarrow> int \<Rightarrow> 'w session \<Rightarrow> pydict list \<times> 'w session" where
  "google_search net self query num_results s =
     (case google_try net self query num_results s of
        (Inr results, s') \<Rightarrow> (results, s')
      | (Inl e, s') \<Rightarrow> duckduckgo_search net query num_results s')"

section \<open>Provider selection\<close>

definition search_web :: "'w transport \<Rightarrow> agent \<Rightarrow> pystr \<Rightarrow> int \<Rightarrow> 'w session \<Rightarrow> pydict list \<times> 'w session" where
  "search_web net self query num_results s =
     (if truthy (opt_val (search_api_key self)) \<and> truthy (opt_val (search_engine_id self))
      then google_search net self query num_results s
      else duckduckgo_search net query num_results s)"

section \<open>Answer generation\<close>

text \<open>
  An f-string inserts a \<open>str\<close> as it is and calls the builtin \<open>str\<close> on anything else;
  the builtin is a parameter, \<open>str\<close> for a value and \<open>str_exn\<close> for an exception.
\<close>

definition format_value :: "(pyval \<Rightarrow> pystr) \<Rightarrow> pyval \<Rightarrow> pystr" where
  "format_value str v = (case v of PStr s \<Rightarrow> s | _ \<Rightarrow> str v)"

definition context_entry :: "(pyval \<Rightarrow> pystr) \<Rightarrow> nat \<Rightarrow> pydict \<Rightarrow> exn + pystr" where
  "context_entry str i result =
     bindE (py_item result (ustr ''title'')) (\<lambda>title.
     bindE (py_item result (ustr ''snippet'')) (\<lambda>snippet.
     bindE (py_item result (ustr ''link'')) (\<lambda>link.
       Inr (dec i @ ustr '', **'' @ format_value str title @ ustr ''**'' @ [10] @
            ustr ''   '' @ format_value str snippet @ [10] @
            ustr ''   Source: '' @ format_value str link @ [10, 10]))))"

fun context_loop :: "(pyval \<Rightarrow> pystr) \<Rightarrow> pystr \<Rightarrow> nat \<Rightarrow> pydict list \<Rightarrow> exn + pystr" where
  "context_loop str context i [] = Inr context"
| "context_loop str context i (result # rest) =
     (case context_entry str i result of
        Inl e \<Rightarrow> Inl e
      | Inr entry \<Rightarrow> context_loop str (context @ entry) (Suc i) rest)"

definition build_context :: "(pyval \<Rightarrow> pystr) \<Rightarrow> pydict list \<Rightarrow> exn + pystr" where
  "build_context str search_results =
     context_loop str (ustr ''Here are the search results: '' @ [10, 10]) 1 search_results"

definition indent :: pystr where
  "indent = replicate 21 32"

definition prompt :: "pystr \<Rightarrow> pystr \<Rightarrow> pystr" where
  "prompt query context =
     ustr ''You are helpful AI assistant. Based on the following search results, provide a comprehensive and accurate answer to the user's question.'' @ [10] @
     indent @ ustr ''User Question: '' @ query @ [10] @
     indent @ context @ [10] @
     indent @ ustr ''Please provide a well-structured response that:'' @ [10] @
     indent @ ustr ''1. Directly answers the user's question'' @ [10] @
     indent @ ustr ''2. Synthesizes information from the search results'' @ [10] @
     indent @ ustr ''3. Mentions sources when relevant'' @ [10] @
     indent @ ustr ''4. Is clear and easy to understand'' @ [10] @
     indent @ ustr ''5. Acknowledges if information is limited or uncertain'' @ [10] @
     indent @ [10] @
     indent @ ustr ''Response:''"

text \<open>The keys of a result that \<open>generate_response\<close> reads.\<close>

definition record_keys :: "pystr list" where
  "record_keys = [ustr ''title'', ustr ''snippet'', ustr ''link'']"

text \<open>
  The \<open>try\<close> block: the context is built first, then the model is called.
  \<open>generate_content\<close> stands for the call and the reading of \<open>response.text\<close>: it
  returns the text or raises.
\<close>

definition response_try :: "(pyval \<Rightarrow> pystr) \<Rightarrow> (pystr \<Rightarrow> exn + pystr) \<Rightarrow> pystr \<Rightarrow> pydict list \<Rightarrow> exn + pystr" where
  "response_try str generate_content query search_results =
     bindE (build_context str search_results) (\<lambda>context.
       generate_content (prompt query context))"

definition bullet :: "(pyval \<Rightarrow> pystr) \<Rightarrow> pydict \<Rightarrow> exn + pystr" where
  "bullet str r =
     bindE (py_item r (ustr ''title'')) (\<lambda>title.
     bindE (py_item r (ustr ''snippet'')) (\<lambda>snippet.
       Inr ([8226, 32] @ format_value str title @ ustr '': '' @ format_value str snippet)))"

text \<open>
  The \<open>except\<close> branch. It runs outside the \<open>try\<close>, so a missing key here leaves
  \<open>generate_response\<close> as an exception.
\<close>

definition degraded_response :: "(pyval \<Rightarrow> pystr) \<Rightarrow> (exn \<Rightarrow> pystr) \<Rightarrow> exn \<Rightarrow> pydict list \<Rightarrow> exn + pystr" where
  "degraded_response str str_exn e search_results =
     bindE (mapE (bullet str) search_results) (\<lambda>lines.
       Inr ([10060] @ ustr '' Error generating response: '' @ str_exn e @ [10, 10] @
            ustr ''Here are the raw search results:'' @ [10] @ join [10] lines))"

definition generate_response :: "(pyval \<Rightarrow> pystr) \<Rightarrow> (exn \<Rightarrow> pystr) \<Rightarrow> (pystr \<Rightarrow> exn + pystr) \<Rightarrow> pystr \<Rightarrow> pydict list \<Rightarrow> exn + pystr" where
  "generate_response str str_exn generate_content query search_results =
     (case response_try str generate_content query search_results of
        Inr text \<Rightarrow> Inr text
      | Inl e \<Rightarrow> degraded_response str str_exn e search_results)"

section \<open>Networks and example data\<close>


definition credentials :: agent where
  "credentials = \<lparr>search_api_key = Some (ustr ''key''), search_engine_id = Some (ustr ''cx'')\<rparr>"

definition no_credentials :: agent where
  "no_credentials = \<lparr>search_api_key = None, search_engine_id = None\<rparr>"

definition start :: "unit session" where
  "start = \<lparr>network = (), sent = []\<rparr>"

text \<open>No connection at all.\<close>

definition offline :: "unit transport" where
  "offline w r = (Inl ConnectionError, w)"

text \<open>A search engine that answers with status 200 and a body without \<open>items\<close>.\<close>

definition no_hits :: "unit transport" where
  "no_hits w r = (Inr (PDict [(ustr ''kind'', PStr (ustr ''customsearch#search''))]), w)"

definition paris_topic :: pyval where
  "paris_topic =
     PDict [(ustr ''Text'', PStr (ustr ''Paris, Texas'')),
            (ustr ''FirstURL'', PStr (ustr ''https://duckduckgo.com/Paris_Texas''))]"

definition paris_body :: pyval where
  "paris_body =
     PDict [(ustr ''Abstract'', PStr (ustr ''Paris is the capital'')),
            (ustr ''Heading'', PStr (ustr ''Paris'')),
            (ustr ''AbstractURL'', PStr (ustr ''https://en.wikipedia.org/wiki/Paris'')),
            (ustr ''RelatedTopics'', PList [paris_topic, PStr (ustr ''x''), paris_topic])]"

text \<open>The primary provider refuses the key, the secondary one knows Paris.\<close>

definition paris_net :: "unit transport" where
  "paris_net w r =
     (case r of Get url ps \<Rightarrow>
        (if url = google_url then Inl (HTTPError 403) else Inr paris_body, w))"



text \<open>
  A body of the wrong shape for both providers: \<open>items\<close> is \<open>null\<close> and the abstract
  is a number.
\<close>

definition odd_body :: pyval where
  "odd_body = PDict [(ustr ''items'', PNone), (ustr ''Abstract'', PInt 5)]"

definition odd_net :: "unit transport" where
  "odd_net w r = (Inr odd_body, w)"

text \<open>A network that changes its answer after the first request.\<close>

definition fading_net :: "nat transport" where
  "fading_net w r = (if w = 0 then Inr paris_body else Inl ConnectionError, Suc w)"

text \<open>A completion call that always raises, and the message of an exception.\<close>

definition quota_exceeded :: "pystr \<Rightarrow> exn + pystr" where
  "quota_exceeded p = Inl (APIError (ustr ''quota''))"

definition message_of :: "exn \<Rightarrow> pystr" where
  "message_of e = (case e of APIError m \<Rightarrow> m | KeyError k \<Rightarrow> [39] @ k @ [39] | _ \<Rightarrow> [])"

section \<open>Basic facts\<close>

lemma ustr_eq_iff [simp]: "ustr a = ustr b \<longleftrightarrow> a = b"
  by (simp add: ustr_def inj_map_eq_map inj_of_char)

lemma ustr_Nil_iff [simp]: "ustr a = [] \<longleftrightarrow> a = []"
  by (simp add: ustr_def)

lemma bindE_Inl [simp]: "bindE (Inl e) f = Inl e"
  by (simp add: bindE_def)

lemma bindE_Inr [simp]: "bindE (Inr x) f = f x"
  by (simp add: bindE_def)

lemma bindE_eq_Inr: "bindE m f = Inr y \<longleftrightarrow> (\<exists>x. m = Inr x \<and> f x = Inr y)"
  by (cases m) simp_all

lemma py_get_Inr: "py_get data k d = Inr a \<Longrightarrow> \<exists>kvs. data = PDict kvs"
  by (cases data) simp_all

lemma py_get_truthy:
  "py_get data k d = Inr a \<Longrightarrow> truthy a \<Longrightarrow> \<not> truthy d \<Longrightarrow> py_get data k d' = Inr a"
  by (cases data) (auto split: option.splits)

lemma slice_to_nonneg: "0 \<le> n \<Longrightarrow> slice_to xs n = take (min (length xs) (nat n)) xs"
  by (simp add: slice_to_def min_def)

lemma py_item_Inr_iff: "(\<exists>v. py_item r k = Inr v) \<longleftrightarrow> has_key r k"
  by (auto simp: py_item_def has_key_def split: option.splits)

lemma has_key_keys: "has_key r k \<longleftrightarrow> k \<in> set (py_keys r)"
  by (simp add: has_key_def py_keys_def map_of_eq_None_iff)

section \<open>Requests sent and the two outcomes of each provider\<close>

lemma sent_get_json: "sent (snd (get_json net url ps s)) = sent s @ [Get url ps]"
  by (simp add: get_json_def split: prod.splits)

lemma sent_ddg_try: "sent (snd (ddg_try net q n s)) = sent s @ [Get ddg_url (ddg_params q)]"
  using sent_get_json [of net ddg_url "ddg_params q" s]
  by (auto simp: ddg_try_def split: prod.splits)

lemma sent_duckduckgo_search:
  "sent (snd (duckduckgo_search net q n s)) = sent s @ [Get ddg_url (ddg_params q)]"
  using sent_ddg_try [of net q n s]
  by (auto simp: duckduckgo_search_def split: prod.splits sum.splits)

lemma sent_google_try:
  "sent (snd (google_try net self q n s)) = sent s @ [Get google_url (google_params self q n)]"
  using sent_get_json [of net google_url "google_params self q n" s]
  by (auto simp: google_try_def split: prod.splits)

lemma google_search_ok:
  "fst (google_try net self q n s) = Inr rs \<Longrightarrow>
   google_search net self q n s = (rs, snd (google_try net self q n s))"
  by (cases "google_try net self q n s") (simp add: google_search_def)

lemma google_search_fail:
  "fst (google_try net self q n s) = Inl e \<Longrightarrow>
   google_search net self q n s = duckduckgo_search net q n (snd (google_try net self q n s))"
  by (cases "google_try net self q n s") (simp add: google_search_def)

lemma duckduckgo_search_ok:
  "fst (ddg_try net q n s) = Inr rs \<Longrightarrow>
   duckduckgo_search net q n s = (rs, snd (ddg_try net q n s))"
  by (cases "ddg_try net q n s") (simp add: duckduckgo_search_def)

lemma duckduckgo_search_fail:
  "fst (ddg_try net q n s) = Inl e \<Longrightarrow>
   duckduckgo_search net q n s = ([fallback_result q], snd (ddg_try net q n s))"
  by (cases "ddg_try net q n s") (simp add: duckduckgo_search_def)

lemma sent_google_search:
  "sent (snd (google_search net self q n s)) =
     sent s @ [Get google_url (google_params self q n)] \<or>
   sent (snd (google_search net self q n s)) =
     sent s @ [Get google_url (google_params self q n), Get ddg_url (ddg_params q)]"
  by (cases "fst (google_try net self q n s)")
     (simp_all add: google_search_fail google_search_ok sent_duckduckgo_search sent_google_try)

text \<open>
  Each \<open>try\<close> block spelled out: it raises when the call fails or the body does not
  parse, and leaves one more request in the log.
\<close>

lemma ddg_try_Inr:
  "fst (ddg_try net q n s) = Inr rs \<Longrightarrow>
   \<exists>data. fst (net (network s) (Get ddg_url (ddg_params q))) = Inr data \<and>
          ddg_results q n data = Inr rs"
  by (auto simp: ddg_try_def get_json_def bindE_eq_Inr split: prod.splits)

lemma google_try_Inr:
  "fst (google_try net self q n s) = Inr rs \<Longrightarrow>
   \<exists>data. fst (net (network s) (Get google_url (google_params self q n))) = Inr data \<and>
          google_results data = Inr rs"
  by (auto simp: google_try_def get_json_def bindE_eq_Inr split: prod.splits)

lemma google_try_eq:
  "google_try net self q n s =
     (bindE (fst (net (network s) (Get google_url (google_params self q n)))) google_results,
      \<lparr>network = snd (net (network s) (Get google_url (google_params self q n))),
       sent = sent s @ [Get google_url (google_params self q n)]\<rparr>)"
  by (simp add: google_try_def get_json_def split: prod.splits)

lemma ddg_try_eq:
  "ddg_try net q n s =
     (bindE (fst (net (network s) (Get ddg_url (ddg_params q)))) (ddg_results q n),
      \<lparr>network = snd (net (network s) (Get ddg_url (ddg_params q))),
       sent = sent s @ [Get ddg_url (ddg_params q)]\<rparr>)"
  by (simp add: ddg_try_def get_json_def split: prod.splits)

text \<open>A body of the wrong shape makes each provider raise.\<close>

lemma odd_google_results: "google_results odd_body = Inl TypeError"
  by (simp add: google_results_def odd_body_def)

lemma odd_ddg_results: "ddg_results q n odd_body = Inl TypeError"
  by (simp add: ddg_results_def ddg_abstract_def odd_body_def)

text \<open>Other bodies that make the primary provider raise: a list, and a list of strings.\<close>

lemma google_results_not_dict: "google_results (PList xs) = Inl AttributeError"
  by (simp add: google_results_def)

lemma google_results_item_not_dict:
  "google_results (PDict [(ustr ''items'', PList [PStr x])]) = Inl AttributeError"
  by (simp add: google_results_def google_item_def)

section \<open>The secondary provider never returns an empty list\<close>

lemma ddg_results_nonempty: "ddg_results q n data = Inr rs \<Longrightarrow> rs \<noteq> []"
  by (auto simp: ddg_results_def bindE_eq_Inr split: if_splits)

lemma duckduckgo_search_nonempty: "fst (duckduckgo_search net q n s) \<noteq> []"
proof (cases "fst (ddg_try net q n s)")
  case (Inl e)
  then show ?thesis by (simp add: duckduckgo_search_fail)
next
  case (Inr rs)
  from ddg_try_Inr [OF Inr] have "rs \<noteq> []" by (auto dest: ddg_results_nonempty)
  with Inr show ?thesis by (simp add: duckduckgo_search_ok)
qed

lemma google_search_empty_iff:
  "fst (google_search net self q n s) = [] \<longleftrightarrow> fst (google_try net self q n s) = Inr []"
proof (cases "fst (google_try net self q n s)")
  case (Inl e)
  then show ?thesis by (simp add: google_search_fail duckduckgo_search_nonempty)
next
  case (Inr rs)
  then show ?thesis by (simp add: google_search_ok)
qed

lemma search_web_empty_iff:
  "fst (search_web net self q n s) = [] \<longleftrightarrow>
   truthy (opt_val (search_api_key self)) \<and> truthy (opt_val (search_engine_id self)) \<and>
   fst (google_try net self q n s) = Inr []"
  by (auto simp: search_web_def google_search_empty_iff duckduckgo_search_nonempty)

text \<open>
  Claim C1 says that \<open>search_web\<close> returns a non-empty list on every provider path. The
  secondary provider does (\<open>duckduckgo_search_nonempty\<close>: it adds a placeholder when it
  found nothing), the primary one has no such step: with both credentials set and an
  answer from the search engine that carries no \<open>items\<close>, the list returned is empty.
\<close>

theorem search_web_empty_on_no_hits:
  "fst (search_web no_hits credentials (ustr ''zzqx'') 5 start) = []"
  by (simp add: search_web_def credentials_def opt_val_def google_search_def google_try_def
      get_json_def no_hits_def google_results_def start_def)

section \<open>The request of the primary provider\<close>

text \<open>
  Claim C9: whatever limit the caller asks for, the \<open>num\<close> parameter of the request
  sent to the primary provider is \<open>min(limit, 10)\<close>, so it never exceeds 10. The
  request is the first one \<open>_google_search\<close> sends, and the only one it sends to the
  primary provider.
\<close>

theorem google_num_capped:
  "(sent (snd (google_search net self query n s)) =
      sent s @ [Get google_url (google_params self query n)] \<or>
    sent (snd (google_search net self query n s)) =
      sent s @ [Get google_url (google_params self query n), Get ddg_url (ddg_params query)]) \<and>
   py_item (google_params self query n) (ustr ''num'') = Inr (PInt (min n 10)) \<and>
   min n 10 \<le> 10"
proof -
  have "py_item (google_params self query n) (ustr ''num'') = Inr (PInt (min n 10))"
    by (simp add: google_params_def py_item_def)
  then show ?thesis using sent_google_search [of net self query n s] by simp
qed

section \<open>Falling back from the primary provider\<close>



section \<open>Provider selection\<close>

text \<open>
  Claim C6: with a non-empty API key and a non-empty engine identifier, \<open>search_web\<close> is
  the primary provider, and its first request goes to the primary endpoint with these
  credentials. With either of them unset or empty, \<open>search_web\<close> is the secondary
  provider: exactly one request is sent, to the secondary endpoint, and none to the
  primary one.
\<close>

theorem provider_selection:
  "(search_api_key self = Some k \<and> k \<noteq> [] \<and> search_engine_id self = Some c \<and> c \<noteq> [] \<longrightarrow>
      search_web net self query n s = google_search net self query n s \<and>
      (\<exists>rest. sent (snd (search_web net self query n s)) =
         sent s @ Get google_url
           [(ustr ''key'', PStr k), (ustr ''cx'', PStr c), (ustr ''q'', PStr query),
            (ustr ''num'', PInt (min n 10))] # rest)) \<and>
   (search_api_key self \<in> {None, Some []} \<or> search_engine_id self \<in> {None, Some []} \<longrightarrow>
      search_web net self query n s = duckduckgo_search net query n s \<and>
      sent (snd (search_web net self query n s)) = sent s @ [Get ddg_url (ddg_params query)]) \<and>
   ddg_url \<noteq> google_url"
proof (intro conjI impI)
  assume h: "search_api_key self = Some k \<and> k \<noteq> [] \<and> search_engine_id self = Some c \<and> c \<noteq> []"
  then show g: "search_web net self query n s = google_search net self query n s"
    by (simp add: search_web_def opt_val_def)
  have p: "google_params self query n =
      [(ustr ''key'', PStr k), (ustr ''cx'', PStr c), (ustr ''q'', PStr query),
       (ustr ''num'', PInt (min n 10))]"
    using h by (simp add: google_params_def opt_val_def)
  show "\<exists>rest. sent (snd (search_web net self query n s)) =
         sent s @ Get google_url
           [(ustr ''key'', PStr k), (ustr ''cx'', PStr c), (ustr ''q'', PStr query),
            (ustr ''num'', PInt (min n 10))] # rest"
    unfolding g p [symmetric] using sent_google_search [of net self query n s] by auto
next
  assume h: "search_api_key self \<in> {None, Some []} \<or> search_engine_id self \<in> {None, Some []}"
  then show d: "search_web net self query n s = duckduckgo_search net query n s"
    by (auto simp: search_web_def opt_val_def)
  show "sent (snd (search_web net self query n s)) = sent s @ [Get ddg_url (ddg_params query)]"
    unfolding d by (rule sent_duckduckgo_search)
next
  show "ddg_url \<noteq> google_url" by (simp add: ddg_url_def google_url_def)
qed

theorem provider_selection_witness:
  "search_api_key credentials = Some (ustr ''key'') \<and> ustr ''key'' \<noteq> [] \<and>
   search_engine_id credentials = Some (ustr ''cx'') \<and> ustr ''cx'' \<noteq> [] \<and>
   search_web offline credentials (ustr ''capital of France'') 20 start =
     google_search offline credentials (ustr ''capital of France'') 20 start \<and>
   (\<exists>rest. sent (snd (search_web offline credentials (ustr ''capital of France'') 20 start)) =
      Get google_url
        [(ustr ''key'', PStr (ustr ''key'')), (ustr ''cx'', PStr (ustr ''cx'')),
         (ustr ''q'', PStr (ustr ''capital of France'')), (ustr ''num'', PInt 10)] # rest) \<and>
   search_api_key no_credentials \<in> {None, Some []} \<and>
   search_web offline no_credentials (ustr ''capital of France'') 20 start =
     duckduckgo_search offline (ustr ''capital of France'') 20 start \<and>
   sent (snd (search_web offline no_credentials (ustr ''capital of France'') 20 start)) =
     [Get ddg_url (ddg_params (ustr ''capital of France''))]"
proof -
  have c: "search_api_key credentials = Some (ustr ''key'') \<and> ustr ''key'' \<noteq> [] \<and>
     search_engine_id credentials = Some (ustr ''cx'') \<and> ustr ''cx'' \<noteq> []"
    by (simp add: credentials_def)
  have k: "search_api_key no_credentials \<in> {None, Some []}"
    by (simp add: no_credentials_def)
  have z: "sent start = []" by (simp add: start_def)
  have m: "min (20::int) 10 = 10" by simp
  from provider_selection [of credentials "ustr ''key''" "ustr ''cx''" offline
      "ustr ''capital of France''" 20 start] c
  have a0: "search_web offline credentials (ustr ''capital of France'') 20 start =
     google_search offline credentials (ustr ''capital of France'') 20 start \<and>
    (\<exists>rest. sent (snd (search_web offline credentials (ustr ''capital of France'') 20 start)) =
      sent start @ Get google_url
        [(ustr ''key'', PStr (ustr ''key'')), (ustr ''cx'', PStr (ustr ''cx'')),
         (ustr ''q'', PStr (ustr ''capital of France'')), (ustr ''num'', PInt (min 20 10))] # rest)"
    by blast
  note a = a0 [unfolded z append_Nil m]
  from provider_selection [of no_credentials _ _ offline "ustr ''capital of France''" 20 start] k
  have b0: "search_web offline no_credentials (ustr ''capital of France'') 20 start =
     duckduckgo_search offline (ustr ''capital of France'') 20 start \<and>
    sent (snd (search_web offline no_credentials (ustr ''capital of France'') 20 start)) =
     sent start @ [Get ddg_url (ddg_params (ustr ''capital of France''))]"
    by blast
  note b = b0 [unfolded z append_Nil]
  from c k a b show ?thesis by blast
qed

section \<open>Failure of the secondary provider\<close>

text \<open>
  Claim C4: when the secondary provider fails (the call, the status check or the decoding
  raises, or reading the decoded body raises), it returns exactly one record, and so does
  the search, whether it went to the secondary provider directly or after the primary one
  had failed. The title of the record is \<open>Search: \<close> followed by the query, its snippet
  ends with the query, its link is a web-search address made of the query with every
  space turned into \<open>+\<close>, and its source is \<open>Fallback\<close>.
\<close>

theorem secondary_failure_fallback:
  "(fst (net (network s) (Get ddg_url (ddg_params query))) = Inl e \<or>
    fst (net (network s) (Get ddg_url (ddg_params query))) = Inr data \<and>
    ddg_results query n data = Inl e \<longrightarrow>
      fst (duckduckgo_search net query n s) = [fallback_result query] \<and>
      (search_api_key self \<in> {None, Some []} \<or> search_engine_id self \<in> {None, Some []} \<longrightarrow>
         fst (search_web net self query n s) = [fallback_result query]) \<and>
      (google_try net self query n s0 = (Inl e0, s) \<longrightarrow>
         fst (google_search net self query n s0) = [fallback_result query])) \<and>
   py_item (fallback_result query) (ustr ''title'') = Inr (PStr (ustr ''Search: '' @ query)) \<and>
   py_item (fallback_result query) (ustr ''snippet'') =
     Inr (PStr (ustr ''Unable to fetch live search results. This would normally search for: '' @ query)) \<and>
   py_item (fallback_result query) (ustr ''link'') =
     Inr (PStr (ustr ''https://www.google.com/search?q='' @ map (\<lambda>c. if c = 32 then 43 else c) query)) \<and>
   py_item (fallback_result query) (ustr ''source'') = Inr (PStr (ustr ''Fallback''))"
proof -
  have a: "fst (net (network s) (Get ddg_url (ddg_params query))) = Inl e \<or>
    fst (net (network s) (Get ddg_url (ddg_params query))) = Inr data \<and>
    ddg_results query n data = Inl e \<longrightarrow>
      fst (duckduckgo_search net query n s) = [fallback_result query] \<and>
      (search_api_key self \<in> {None, Some []} \<or> search_engine_id self \<in> {None, Some []} \<longrightarrow>
         fst (search_web net self query n s) = [fallback_result query]) \<and>
      (google_try net self query n s0 = (Inl e0, s) \<longrightarrow>
         fst (google_search net self query n s0) = [fallback_result query])"
  proof
    assume "fst (net (network s) (Get ddg_url (ddg_params query))) = Inl e \<or>
      fst (net (network s) (Get ddg_url (ddg_params query))) = Inr data \<and>
      ddg_results query n data = Inl e"
    then have f: "fst (ddg_try net query n s) = Inl e"
      by (auto simp: ddg_try_eq)
    have d: "fst (duckduckgo_search net query n s) = [fallback_result query]"
      using f by (simp add: duckduckgo_search_fail)
    have w: "search_api_key self \<in> {None, Some []} \<or> search_engine_id self \<in> {None, Some []} \<longrightarrow>
         fst (search_web net self query n s) = [fallback_result query]"
      using d by (auto simp: search_web_def opt_val_def)
    have g: "google_try net self query n s0 = (Inl e0, s) \<longrightarrow>
         fst (google_search net self query n s0) = [fallback_result query]"
      using d by (simp add: google_search_def)
    from d w g show "fst (duckduckgo_search net query n s) = [fallback_result query] \<and>
      (search_api_key self \<in> {None, Some []} \<or> search_engine_id self \<in> {None, Some []} \<longrightarrow>
         fst (search_web net self query n s) = [fallback_result query]) \<and>
      (google_try net self query n s0 = (Inl e0, s) \<longrightarrow>
         fst (google_search net self query n s0) = [fallback_result query])"
      by blast
  qed
  have c: "py_item (fallback_result query) (ustr ''title'') = Inr (PStr (ustr ''Search: '' @ query))"
    "py_item (fallback_result query) (ustr ''snippet'') =
     Inr (PStr (ustr ''Unable to fetch live search results. This would normally search for: '' @ query))"
    "py_item (fallback_result query) (ustr ''link'') =
     Inr (PStr (ustr ''https://www.google.com/search?q='' @ map (\<lambda>c. if c = 32 then 43 else c) query))"
    "py_item (fallback_result query) (ustr ''source'') = Inr (PStr (ustr ''Fallback''))"
    by (simp_all add: fallback_result_def py_item_def py_replace_def)
  from a c show ?thesis by blast
qed

theorem secondary_failure_fallback_witness:
  "fst (offline (network start) (Get ddg_url (ddg_params (ustr ''capital of France'')))) =
     Inl ConnectionError \<and>
   search_api_key no_credentials \<in> {None, Some []} \<and>
   fst (duckduckgo_search offline (ustr ''capital of France'') 1 start) =
     [fallback_result (ustr ''capital of France'')] \<and>
   fst (search_web offline no_credentials (ustr ''capital of France'') 1 start) =
     [fallback_result (ustr ''capital of France'')] \<and>
   fst (odd_net (network (snd (google_try odd_net credentials (ustr ''capital of France'') 1 start)))
        (Get ddg_url (ddg_params (ustr ''capital of France'')))) = Inr odd_body \<and>
   ddg_results (ustr ''capital of France'') 1 odd_body = Inl TypeError \<and>
   google_try odd_net credentials (ustr ''capital of France'') 1 start =
     (Inl TypeError, snd (google_try odd_net credentials (ustr ''capital of France'') 1 start)) \<and>
   fst (google_search odd_net credentials (ustr ''capital of France'') 1 start) =
     [fallback_result (ustr ''capital of France'')] \<and>
   py_item (fallback_result (ustr ''capital of France'')) (ustr ''link'') =
     Inr (PStr (ustr ''https://www.google.com/search?q=capital+of+France''))"
proof -
  have k: "search_api_key no_credentials \<in> {None, Some []}"
    by (simp add: no_credentials_def)
  have m: "map (\<lambda>c. if c = 32 then 43 else c) (ustr ''capital of France'') = ustr ''capital+of+France''"
    by (simp add: ustr_def)
  have j: "ustr ''https://www.google.com/search?q='' @ ustr ''capital+of+France'' =
           ustr ''https://www.google.com/search?q=capital+of+France''"
    by (simp add: ustr_def)
  have h1: "fst (offline (network start) (Get ddg_url (ddg_params (ustr ''capital of France'')))) =
     Inl ConnectionError"
    by (simp add: offline_def)
  have h2: "fst (odd_net (network (snd (google_try odd_net credentials (ustr ''capital of France'') 1 start)))
        (Get ddg_url (ddg_params (ustr ''capital of France'')))) = Inr odd_body"
    by (simp add: odd_net_def)
  have h3: "google_try odd_net credentials (ustr ''capital of France'') 1 start =
     (Inl TypeError, snd (google_try odd_net credentials (ustr ''capital of France'') 1 start))"
    by (simp add: google_try_eq odd_net_def odd_google_results)
  note t1 = secondary_failure_fallback [of offline start "ustr ''capital of France''"
      ConnectionError _ 1 no_credentials]
  note t2 = secondary_failure_fallback [of odd_net
      "snd (google_try odd_net credentials (ustr ''capital of France'') 1 start)"
      "ustr ''capital of France''" TypeError odd_body 1 credentials start TypeError]
  from t1 h1 k have r1:
    "fst (duckduckgo_search offline (ustr ''capital of France'') 1 start) =
       [fallback_result (ustr ''capital of France'')]"
    "fst (search_web offline no_credentials (ustr ''capital of France'') 1 start) =
       [fallback_result (ustr ''capital of France'')]"
    by blast+
  from t2 h2 h3 odd_ddg_results [of "ustr ''capital of France''" 1] have r2:
    "fst (google_search odd_net credentials (ustr ''capital of France'') 1 start) =
       [fallback_result (ustr ''capital of France'')]"
    by blast
  from t1 have "py_item (fallback_result (ustr ''capital of France'')) (ustr ''link'') =
     Inr (PStr (ustr ''https://www.google.com/search?q='' @
       map (\<lambda>c. if c = 32 then 43 else c) (ustr ''capital of France'')))"
    by blast
  then have r3: "py_item (fallback_result (ustr ''capital of France'')) (ustr ''link'') =
     Inr (PStr (ustr ''https://www.google.com/search?q=capital+of+France''))"
    by (simp only: m j)
  from h1 k r1 h2 odd_ddg_results [of "ustr ''capital of France''" 1] h3 r2 r3
  show ?thesis by blast
qed

section \<open>Searching twice\<close>









text \<open>
  Without the assumption on the network the two searches can differ: the search keeps no
  state, but the network may.
\<close>

lemma fading_net_differs:
  "fst (search_web fading_net no_credentials (ustr ''Paris'') 1
         (snd (search_web fading_net no_credentials (ustr ''Paris'') 1 \<lparr>network = 0, sent = []\<rparr>))) \<noteq>
   fst (search_web fading_net no_credentials (ustr ''Paris'') 1 \<lparr>network = 0, sent = []\<rparr>)"
  by (simp add: search_web_def no_credentials_def opt_val_def duckduckgo_search_def ddg_try_def
      get_json_def fading_net_def ddg_results_def ddg_abstract_def ddg_related_def paris_body_def
      slice_to_def fallback_result_def)



section \<open>Records of the secondary provider\<close>

lemma ddg_abstract_Inr:
  "ddg_abstract q data = Inr rs0 \<Longrightarrow> \<exists>a. py_get data (ustr ''Abstract'') PNone = Inr a"
  by (auto simp: ddg_abstract_def bindE_eq_Inr)

lemma ddg_abstract_falsy:
  "py_get data (ustr ''Abstract'') PNone = Inr a \<Longrightarrow> \<not> truthy a \<Longrightarrow> ddg_abstract q data = Inr []"
  by (simp add: ddg_abstract_def)

lemma ddg_abstract_str:
  assumes "py_get data (ustr ''Abstract'') PNone = Inr (PStr s)" and "s \<noteq> []"
  shows "\<exists>h l. py_get data (ustr ''Heading'') (PStr q) = Inr h \<and>
           py_get data (ustr ''AbstractURL'') (PStr []) = Inr l \<and>
           ddg_abstract q data =
           Inr [[(ustr ''title'', h),
                 (ustr ''snippet'', PStr (take (min (length s) 200) s @ ustr ''...'')),
                 (ustr ''link'', l)]]"
proof -
  from assms(1) obtain kvs where d: "data = PDict kvs" by (auto dest: py_get_Inr)
  have a2: "py_get data (ustr ''Abstract'') (PStr []) = Inr (PStr s)"
    using py_get_truthy [OF assms(1)] assms(2) by simp
  show ?thesis
    using assms a2 by (simp add: ddg_abstract_def d slice_to_nonneg ellipsis_def)
qed

text \<open>A truthy abstract that is not a string makes the block raise.\<close>

lemma ddg_abstract_truthy:
  assumes "ddg_abstract q data = Inr rs" and "py_get data (ustr ''Abstract'') PNone = Inr a"
    and "truthy a"
  shows "\<exists>s. a = PStr s \<and> s \<noteq> []"
proof -
  have a2: "py_get data (ustr ''Abstract'') (PStr []) = Inr a"
    using py_get_truthy [OF assms(2,3)] by simp
  from assms(2) obtain kvs where d: "data = PDict kvs" by (auto dest: py_get_Inr)
  show ?thesis
    using assms a2 by (cases a) (simp_all add: ddg_abstract_def d)
qed

lemma ddg_topic_str:
  assumes "py_get topic (ustr ''Text'') PNone = Inr (PStr t)" and "t \<noteq> []"
  shows "\<exists>l. py_get topic (ustr ''FirstURL'') (PStr []) = Inr l \<and>
           ddg_topic topic =
           Inr (Some [(ustr ''title'', PStr (take (min (length t) 50) t @ ustr ''...'')),
                      (ustr ''snippet'', PStr (take (min (length t) 200) t @ ustr ''...'')),
                      (ustr ''link'', l),
                      (ustr ''source'', PStr (ustr ''DuckDuckGo''))])"
proof -
  from assms(1) obtain kvs where d: "topic = PDict kvs" by (auto dest: py_get_Inr)
  have a2: "py_get topic (ustr ''Text'') (PStr []) = Inr (PStr t)"
    using py_get_truthy [OF assms(1)] assms(2) by simp
  show ?thesis
    using assms a2 unfolding d by (simp add: ddg_topic_def slice_to_nonneg ellipsis_def)
qed

lemma ddg_topic_Some:
  assumes "ddg_topic topic = Inr (Some r)"
  shows "\<exists>t l. t \<noteq> [] \<and> py_get topic (ustr ''Text'') PNone = Inr (PStr t) \<and>
           r = [(ustr ''title'', PStr (take (min (length t) 50) t @ ustr ''...'')),
                (ustr ''snippet'', PStr (take (min (length t) 200) t @ ustr ''...'')),
                (ustr ''link'', l),
                (ustr ''source'', PStr (ustr ''DuckDuckGo''))]"
proof -
  from assms obtain kvs where d: "topic = PDict kvs"
    by (cases topic) (simp_all add: ddg_topic_def)
  obtain a where a: "py_get topic (ustr ''Text'') PNone = Inr a" by (simp add: d)
  have ta: "truthy a" using assms a unfolding d by (auto simp: ddg_topic_def split: if_splits)
  have a2: "py_get topic (ustr ''Text'') (PStr []) = Inr a"
    using py_get_truthy [OF a ta] by simp
  from assms a a2 ta obtain t where t: "a = PStr t"
    unfolding d by (cases a) (simp_all add: ddg_topic_def)
  with ta have "t \<noteq> []" by simp
  from ddg_topic_str [OF a [unfolded t] this] assms a t \<open>t \<noteq> []\<close> show ?thesis by auto
qed

lemma ddg_loop_shape:
  "ddg_loop acc ts = Inr rs \<Longrightarrow>
   \<exists>new. rs = acc @ new \<and> length new \<le> length ts \<and>
     (\<forall>r\<in>set new. \<exists>topic\<in>set ts. ddg_topic topic = Inr (Some r))"
proof (induction ts arbitrary: acc)
  case Nil
  then show ?case by simp
next
  case (Cons topic ts)
  show ?case
  proof (cases "ddg_topic topic")
    case (Inl e)
    with Cons.prems show ?thesis by simp
  next
    case (Inr o1)
    show ?thesis
    proof (cases o1)
      case None
      with Inr Cons.prems have "ddg_loop acc ts = Inr rs" by simp
      from Cons.IH [OF this] show ?thesis by fastforce
    next
      case (Some r)
      with Inr Cons.prems have "ddg_loop (acc @ [r]) ts = Inr rs" by simp
      from Cons.IH [OF this] obtain new where
        n: "rs = (acc @ [r]) @ new" "length new \<le> length ts"
           "\<forall>r\<in>set new. \<exists>topic\<in>set ts. ddg_topic topic = Inr (Some r)" by blast
      have "rs = acc @ (r # new)" using n(1) by simp
      moreover have "length (r # new) \<le> length (topic # ts)" using n(2) by simp
      moreover have "\<forall>x\<in>set (r # new). \<exists>tp\<in>set (topic # ts). ddg_topic tp = Inr (Some x)"
        using n(3) Inr Some by auto
      ultimately show ?thesis by blast
    qed
  qed
qed

lemma paris_abstract: "py_get paris_body (ustr ''Abstract'') PNone = Inr (PStr (ustr ''Paris is the capital''))"
  by (simp add: paris_body_def)

lemma paris_text: "py_get paris_topic (ustr ''Text'') PNone = Inr (PStr (ustr ''Paris, Texas''))"
  by (simp add: paris_topic_def)


section \<open>Truncation\<close>

text \<open>
  Claim C3: a non-empty abstract \<open>s\<close> gives a record whose snippet is the first
  \<open>min(len(s), 200)\<close> characters of \<open>s\<close> followed by three dots, also when \<open>s\<close> is
  shorter than 200 characters; a related topic with a non-empty text \<open>t\<close> gives a record
  whose title is the first 50 and whose snippet is the first 200 characters of \<open>t\<close>, each
  followed by three dots. The cut counts characters and looks at nothing else.
\<close>

theorem truncation_law:
  "(py_get data (ustr ''Abstract'') PNone = Inr (PStr s) \<and> s \<noteq> [] \<longrightarrow>
      (\<exists>h l. ddg_abstract query data =
         Inr [[(ustr ''title'', h),
               (ustr ''snippet'', PStr (take (min (length s) 200) s @ ustr ''...'')),
               (ustr ''link'', l)]])) \<and>
   (py_get topic (ustr ''Text'') PNone = Inr (PStr t) \<and> t \<noteq> [] \<longrightarrow>
      (\<exists>l. ddg_topic topic =
         Inr (Some [(ustr ''title'', PStr (take (min (length t) 50) t @ ustr ''...'')),
                    (ustr ''snippet'', PStr (take (min (length t) 200) t @ ustr ''...'')),
                    (ustr ''link'', l),
                    (ustr ''source'', PStr (ustr ''DuckDuckGo''))])))"
  using ddg_abstract_str [of data s query] ddg_topic_str [of topic t] by blast

theorem truncation_law_witness:
  "py_get paris_body (ustr ''Abstract'') PNone = Inr (PStr (ustr ''Paris is the capital'')) \<and>
   ustr ''Paris is the capital'' \<noteq> [] \<and>
   (\<exists>h l. ddg_abstract (ustr ''capital of France'') paris_body =
      Inr [[(ustr ''title'', h),
            (ustr ''snippet'', PStr (ustr ''Paris is the capital...'')),
            (ustr ''link'', l)]]) \<and>
   py_get paris_topic (ustr ''Text'') PNone = Inr (PStr (ustr ''Paris, Texas'')) \<and>
   ustr ''Paris, Texas'' \<noteq> [] \<and>
   (\<exists>l. ddg_topic paris_topic =
      Inr (Some [(ustr ''title'', PStr (ustr ''Paris, Texas...'')),
                 (ustr ''snippet'', PStr (ustr ''Paris, Texas...'')),
                 (ustr ''link'', l),
                 (ustr ''source'', PStr (ustr ''DuckDuckGo''))]))"
proof -
  have n: "ustr ''Paris is the capital'' \<noteq> []" "ustr ''Paris, Texas'' \<noteq> []" by simp_all
  have c1: "take (min (length (ustr ''Paris is the capital'')) 200) (ustr ''Paris is the capital'') @
      ustr ''...'' = ustr ''Paris is the capital...''"
    by (simp add: ustr_def)
  have c2: "take (min (length (ustr ''Paris, Texas'')) 50) (ustr ''Paris, Texas'') @
      ustr ''...'' = ustr ''Paris, Texas...''"
    "take (min (length (ustr ''Paris, Texas'')) 200) (ustr ''Paris, Texas'') @
      ustr ''...'' = ustr ''Paris, Texas...''"
    by (simp_all add: ustr_def)
  note t = truncation_law [of paris_body "ustr ''Paris is the capital''"
      "ustr ''capital of France''" paris_topic "ustr ''Paris, Texas''"]
  from t paris_abstract n(1) have a0:
    "\<exists>h l. ddg_abstract (ustr ''capital of France'') paris_body =
      Inr [[(ustr ''title'', h),
            (ustr ''snippet'', PStr (take (min (length (ustr ''Paris is the capital'')) 200)
               (ustr ''Paris is the capital'') @ ustr ''...'')),
            (ustr ''link'', l)]]"
    by blast
  from t paris_text n(2) have b0:
    "\<exists>l. ddg_topic paris_topic =
      Inr (Some [(ustr ''title'', PStr (take (min (length (ustr ''Paris, Texas'')) 50)
                    (ustr ''Paris, Texas'') @ ustr ''...'')),
                 (ustr ''snippet'', PStr (take (min (length (ustr ''Paris, Texas'')) 200)
                    (ustr ''Paris, Texas'') @ ustr ''...'')),
                 (ustr ''link'', l),
                 (ustr ''source'', PStr (ustr ''DuckDuckGo''))])"
    by blast
  from paris_abstract paris_text n a0 [unfolded c1] b0 [unfolded c2] show ?thesis by blast
qed

section \<open>The slice of the related topics\<close>









text \<open>
  The cut comes before the test: with a limit of 3 the third topic of the example, which
  has a text, is never looked at, and the second, which has none, yields nothing.
\<close>

lemma paris_results_three:
  "fst (search_web paris_net no_credentials (ustr ''capital of France'') 3 start) =
     [[(ustr ''title'', PStr (ustr ''Paris'')),
       (ustr ''snippet'', PStr (ustr ''Paris is the capital'' @ ustr ''...'')),
       (ustr ''link'', PStr (ustr ''https://en.wikipedia.org/wiki/Paris''))],
      [(ustr ''title'', PStr (ustr ''Paris, Texas'' @ ustr ''...'')),
       (ustr ''snippet'', PStr (ustr ''Paris, Texas'' @ ustr ''...'')),
       (ustr ''link'', PStr (ustr ''https://duckduckgo.com/Paris_Texas'')),
       (ustr ''source'', PStr (ustr ''DuckDuckGo''))]]"
  by (simp add: search_web_def no_credentials_def opt_val_def duckduckgo_search_def ddg_try_def
      get_json_def paris_net_def ddg_url_def google_url_def ddg_results_def ddg_abstract_def
      ddg_related_def ddg_topic_def paris_body_def paris_topic_def slice_to_def ellipsis_def
      ustr_def)


section \<open>The keys of the records\<close>

lemma ddg_abstract_shape:
  assumes "ddg_abstract q data = Inr rs0"
  shows "rs0 = [] \<or> (\<exists>r. rs0 = [r] \<and> py_keys r = record_keys)"
proof -
  from ddg_abstract_Inr [OF assms] obtain a where a: "py_get data (ustr ''Abstract'') PNone = Inr a" ..
  show ?thesis
  proof (cases "truthy a")
    case True
    from ddg_abstract_truthy [OF assms a True] obtain s where s: "a = PStr s" "s \<noteq> []" by blast
    from ddg_abstract_str [OF a [unfolded s(1)] s(2), of q] assms show ?thesis
      by (auto simp: py_keys_def record_keys_def)
  next
    case False
    with ddg_abstract_falsy [OF a False, of q] assms show ?thesis by simp
  qed
qed

lemma ddg_topic_keys:
  "ddg_topic topic = Inr (Some r) \<Longrightarrow> py_keys r = record_keys @ [ustr ''source'']"
  by (auto dest!: ddg_topic_Some simp: py_keys_def record_keys_def)

lemma ddg_results_shape:
  assumes "ddg_results q n data = Inr rs"
  shows "\<exists>rs0 new. ddg_abstract q data = Inr rs0 \<and> rs = rs0 @ new \<and>
           (\<forall>r\<in>set new. py_keys r = record_keys @ [ustr ''source''])"
proof -
  from assms obtain rs0 ts rs1 where
    rs0: "ddg_abstract q data = Inr rs0" and ts: "ddg_related data n = Inr ts"
    and l: "ddg_loop rs0 ts = Inr rs1"
    and rs: "rs = (if rs1 = [] then rs1 @ [ddg_placeholder q] else rs1)"
    by (auto simp: ddg_results_def bindE_eq_Inr)
  from ddg_loop_shape [OF l] obtain new where
    n: "rs1 = rs0 @ new" "\<forall>r\<in>set new. \<exists>topic\<in>set ts. ddg_topic topic = Inr (Some r)" by blast
  have k: "\<forall>r\<in>set new. py_keys r = record_keys @ [ustr ''source'']"
    using n(2) by (auto dest: ddg_topic_keys)
  show ?thesis
  proof (cases "rs1 = []")
    case True
    then have "rs = rs0 @ [ddg_placeholder q]" using rs n(1) by simp
    moreover have "py_keys (ddg_placeholder q) = record_keys @ [ustr ''source'']"
      by (simp add: py_keys_def ddg_placeholder_def record_keys_def)
    ultimately show ?thesis using rs0 by auto
  next
    case False
    then show ?thesis using rs n(1) rs0 k by auto
  qed
qed

lemma google_item_keys:
  "google_item item = Inr r \<Longrightarrow> py_keys r = record_keys @ [ustr ''source'']"
  by (auto simp: google_item_def bindE_eq_Inr py_keys_def record_keys_def)

lemma google_loop_shape:
  "google_loop acc items = Inr rs \<Longrightarrow>
   \<exists>new. rs = acc @ new \<and> length new = length items \<and>
     (\<forall>r\<in>set new. py_keys r = record_keys @ [ustr ''source''])"
proof (induction items arbitrary: acc)
  case Nil
  then show ?case by simp
next
  case (Cons item items)
  show ?case
  proof (cases "google_item item")
    case (Inl e)
    with Cons.prems show ?thesis by simp
  next
    case (Inr r)
    with Cons.prems have "google_loop (acc @ [r]) items = Inr rs" by simp
    from Cons.IH [OF this] obtain new where
      n: "rs = (acc @ [r]) @ new" "length new = length items"
         "\<forall>r\<in>set new. py_keys r = record_keys @ [ustr ''source'']"
      by blast
    have "rs = acc @ (r # new)" using n(1) by simp
    moreover have "length (r # new) = length (item # items)" using n(2) by simp
    moreover have "\<forall>x\<in>set (r # new). py_keys x = record_keys @ [ustr ''source'']"
      using n(3) google_item_keys [OF Inr] by simp
    ultimately show ?thesis by blast
  qed
qed

lemma google_results_keys:
  "google_results data = Inr rs \<Longrightarrow> \<forall>r\<in>set rs. py_keys r = record_keys @ [ustr ''source'']"
  by (auto simp: google_results_def bindE_eq_Inr dest!: google_loop_shape)

lemma duckduckgo_search_shape:
  "\<forall>r\<in>set (fst (duckduckgo_search net q n s)).
     py_keys r = record_keys @ [ustr ''source''] \<or>
     (py_keys r = record_keys \<and> r = hd (fst (duckduckgo_search net q n s)) \<and>
      (\<exists>data. ddg_abstract q data = Inr [r]))"
proof (cases "fst (ddg_try net q n s)")
  case (Inl e)
  then show ?thesis
    by (simp add: duckduckgo_search_fail fallback_result_def py_keys_def record_keys_def)
next
  case (Inr rs)
  from ddg_try_Inr [OF Inr] obtain data where d: "ddg_results q n data = Inr rs" by blast
  from ddg_results_shape [OF d] obtain rs0 new where
    s: "ddg_abstract q data = Inr rs0" "rs = rs0 @ new"
       "\<forall>r\<in>set new. py_keys r = record_keys @ [ustr ''source'']" by blast
  from ddg_abstract_shape [OF s(1)] show ?thesis
  proof
    assume "rs0 = []"
    with s Inr show ?thesis by (simp add: duckduckgo_search_ok)
  next
    assume "\<exists>r. rs0 = [r] \<and> py_keys r = record_keys"
    then obtain r where r: "rs0 = [r]" "py_keys r = record_keys" by blast
    with s Inr show ?thesis by (auto simp: duckduckgo_search_ok)
  qed
qed

lemma google_search_shape:
  "\<forall>r\<in>set (fst (google_search net self q n s)).
     py_keys r = record_keys @ [ustr ''source''] \<or>
     (py_keys r = record_keys \<and> r = hd (fst (google_search net self q n s)) \<and>
      (\<exists>data. ddg_abstract q data = Inr [r]))"
proof (cases "fst (google_try net self q n s)")
  case (Inl e)
  then show ?thesis using duckduckgo_search_shape by (simp add: google_search_fail)
next
  case (Inr rs)
  from google_try_Inr [OF Inr] obtain data where "google_results data = Inr rs" by blast
  from google_results_keys [OF this] Inr show ?thesis
    by (simp add: google_search_ok)
qed

lemma search_web_shape:
  "\<forall>r\<in>set (fst (search_web net self q n s)).
     py_keys r = record_keys @ [ustr ''source''] \<or>
     (py_keys r = record_keys \<and> r = hd (fst (search_web net self q n s)) \<and>
      (\<exists>data. ddg_abstract q data = Inr [r]))"
  using duckduckgo_search_shape [of net q n s] google_search_shape [of net self q n s]
  by (simp add: search_web_def)

lemma keys_has_key:
  "py_keys r = record_keys @ [ustr ''source''] \<or> py_keys r = record_keys \<Longrightarrow>
   has_key r (ustr ''title'') \<and> has_key r (ustr ''snippet'') \<and> has_key r (ustr ''link'')"
  by (auto simp: has_key_keys record_keys_def)

section \<open>Answer generation\<close>

lemma context_entry_Inr_iff:
  "(\<exists>c. context_entry str i r = Inr c) \<longleftrightarrow>
   has_key r (ustr ''title'') \<and> has_key r (ustr ''snippet'') \<and> has_key r (ustr ''link'')"
  unfolding py_item_Inr_iff [symmetric]
  by (auto simp: context_entry_def bindE_eq_Inr)

lemma context_loop_Inr_iff:
  "(\<exists>c'. context_loop str c i rs = Inr c') \<longleftrightarrow>
   (\<forall>r\<in>set rs. has_key r (ustr ''title'') \<and> has_key r (ustr ''snippet'') \<and> has_key r (ustr ''link''))"
proof (induction rs arbitrary: c i)
  case Nil
  show ?case by simp
next
  case (Cons r rs)
  show ?case
  proof (cases "context_entry str i r")
    case (Inl e)
    then have "\<not> (\<exists>c. context_entry str i r = Inr c)" by simp
    then have "\<not> (has_key r (ustr ''title'') \<and> has_key r (ustr ''snippet'') \<and> has_key r (ustr ''link''))"
      unfolding context_entry_Inr_iff .
    with Inl show ?thesis by auto
  next
    case (Inr entry)
    then have "\<exists>c. context_entry str i r = Inr c" by simp
    then have "has_key r (ustr ''title'') \<and> has_key r (ustr ''snippet'') \<and> has_key r (ustr ''link'')"
      unfolding context_entry_Inr_iff .
    with Inr Cons.IH [of "c @ entry" "Suc i"] show ?thesis by simp
  qed
qed

lemma build_context_Inr_iff:
  "(\<exists>c. build_context str rs = Inr c) \<longleftrightarrow>
   (\<forall>r\<in>set rs. has_key r (ustr ''title'') \<and> has_key r (ustr ''snippet'') \<and> has_key r (ustr ''link''))"
  unfolding build_context_def by (rule context_loop_Inr_iff)

lemma bullet_Inr:
  assumes "has_key r (ustr ''title'')" and "has_key r (ustr ''snippet'')"
  shows "\<exists>title snippet. map_of r (ustr ''title'') = Some title \<and>
           map_of r (ustr ''snippet'') = Some snippet \<and>
           bullet str r =
             Inr ([8226, 32] @ format_value str title @ ustr '': '' @ format_value str snippet)"
  using assms by (auto simp: has_key_def bullet_def py_item_def)

lemma mapE_bullet:
  "\<forall>r\<in>set rs. has_key r (ustr ''title'') \<and> has_key r (ustr ''snippet'') \<Longrightarrow>
   \<exists>lines. mapE (bullet str) rs = Inr lines \<and>
     list_all2 (\<lambda>r line. \<exists>title snippet.
         map_of r (ustr ''title'') = Some title \<and> map_of r (ustr ''snippet'') = Some snippet \<and>
         line = [8226, 32] @ format_value str title @ ustr '': '' @ format_value str snippet)
       rs lines"
proof (induction rs)
  case Nil
  show ?case by simp
next
  case (Cons r rs)
  then obtain lines where l: "mapE (bullet str) rs = Inr lines"
    "list_all2 (\<lambda>r line. \<exists>title snippet.
         map_of r (ustr ''title'') = Some title \<and> map_of r (ustr ''snippet'') = Some snippet \<and>
         line = [8226, 32] @ format_value str title @ ustr '': '' @ format_value str snippet)
       rs lines"
    by auto
  from Cons.prems bullet_Inr [of r str] obtain title snippet where
    "map_of r (ustr ''title'') = Some title" "map_of r (ustr ''snippet'') = Some snippet"
    "bullet str r =
       Inr ([8226, 32] @ format_value str title @ ustr '': '' @ format_value str snippet)"
    by auto
  with l show ?case by simp
qed

lemma degraded_response_Inr:
  assumes "\<forall>r\<in>set rs. has_key r (ustr ''title'') \<and> has_key r (ustr ''snippet'')"
  shows "\<exists>lines. degraded_response str str_exn e rs =
           Inr ([10060] @ ustr '' Error generating response: '' @ str_exn e @ [10, 10] @
                ustr ''Here are the raw search results:'' @ [10] @ join [10] lines) \<and>
           list_all2 (\<lambda>r line. \<exists>title snippet.
               map_of r (ustr ''title'') = Some title \<and> map_of r (ustr ''snippet'') = Some snippet \<and>
               line = [8226, 32] @ format_value str title @ ustr '': '' @ format_value str snippet)
             rs lines"
proof -
  from mapE_bullet [OF assms, of str] obtain lines where
    "mapE (bullet str) rs = Inr lines"
    "list_all2 (\<lambda>r line. \<exists>title snippet.
         map_of r (ustr ''title'') = Some title \<and> map_of r (ustr ''snippet'') = Some snippet \<and>
         line = [8226, 32] @ format_value str title @ ustr '': '' @ format_value str snippet)
       rs lines"
    by blast
  then show ?thesis by (intro exI [of _ lines]) (simp add: degraded_response_def)
qed

lemma generate_response_total:
  assumes "\<forall>r\<in>set rs. has_key r (ustr ''title'') \<and> has_key r (ustr ''snippet'') \<and> has_key r (ustr ''link'')"
  shows "\<exists>answer. generate_response str str_exn gc q rs = Inr answer"
proof (cases "response_try str gc q rs")
  case (Inl e)
  from assms have "\<forall>r\<in>set rs. has_key r (ustr ''title'') \<and> has_key r (ustr ''snippet'')" by blast
  from degraded_response_Inr [OF this, of str str_exn e] Inl show ?thesis
    by (auto simp: generate_response_def)
next
  case (Inr answer)
  then show ?thesis by (simp add: generate_response_def)
qed

text \<open>
  Claim C7: when the completion call raises \<open>e\<close> (so the context was built and the call
  was made), \<open>generate_response\<close> returns the error marker, the message of \<open>e\<close>, a
  heading, and one line per input result, in order, each a bullet followed by the title,
  a colon and the snippet of that result. The text is never empty, whatever the results.
\<close>

theorem degraded_on_model_failure:
  assumes "build_context str search_results = Inr context"
    and "generate_content (prompt query context) = Inl e"
  shows "\<exists>lines. generate_response str str_exn generate_content query search_results =
             Inr ([10060] @ ustr '' Error generating response: '' @ str_exn e @ [10, 10] @
                  ustr ''Here are the raw search results:'' @ [10] @ join [10] lines) \<and>
           list_all2 (\<lambda>r line. \<exists>title snippet.
               map_of r (ustr ''title'') = Some title \<and> map_of r (ustr ''snippet'') = Some snippet \<and>
               line = [8226, 32] @ format_value str title @ ustr '': '' @ format_value str snippet)
             search_results lines \<and>
           length lines = length search_results \<and>
           [10060] @ ustr '' Error generating response: '' @ str_exn e @ [10, 10] @
             ustr ''Here are the raw search results:'' @ [10] @ join [10] lines \<noteq> []"
proof -
  have t: "response_try str generate_content query search_results = Inl e"
    using assms by (simp add: response_try_def)
  have "\<exists>c. build_context str search_results = Inr c" using assms(1) by blast
  then have "\<forall>r\<in>set search_results. has_key r (ustr ''title'') \<and> has_key r (ustr ''snippet'')"
    unfolding build_context_Inr_iff by blast
  from degraded_response_Inr [OF this, of str str_exn e] obtain lines where
    l: "degraded_response str str_exn e search_results =
           Inr ([10060] @ ustr '' Error generating response: '' @ str_exn e @ [10, 10] @
                ustr ''Here are the raw search results:'' @ [10] @ join [10] lines)"
       "list_all2 (\<lambda>r line. \<exists>title snippet.
               map_of r (ustr ''title'') = Some title \<and> map_of r (ustr ''snippet'') = Some snippet \<and>
               line = [8226, 32] @ format_value str title @ ustr '': '' @ format_value str snippet)
             search_results lines"
    by blast
  have "length lines = length search_results"
    using l(2) by (simp add: list_all2_lengthD)
  then show ?thesis using t l
    by (intro exI [of _ lines]) (simp add: generate_response_def)
qed

theorem degraded_on_model_failure_witness:
  "build_context (\<lambda>v. []) [] = Inr (ustr ''Here are the search results: '' @ [10, 10]) \<and>
   quota_exceeded (prompt (ustr ''capital of France'')
     (ustr ''Here are the search results: '' @ [10, 10])) = Inl (APIError (ustr ''quota'')) \<and>
   generate_response (\<lambda>v. []) message_of quota_exceeded (ustr ''capital of France'') [] =
     Inr ([10060] @ ustr '' Error generating response: '' @ ustr ''quota'' @ [10, 10] @
          ustr ''Here are the raw search results:'' @ [10]) \<and>
   (\<exists>context. build_context (\<lambda>v. []) [fallback_result (ustr ''capital of France'')] = Inr context \<and>
      quota_exceeded (prompt (ustr ''capital of France'') context) = Inl (APIError (ustr ''quota''))) \<and>
   generate_response (\<lambda>v. []) message_of quota_exceeded (ustr ''capital of France'')
       [fallback_result (ustr ''capital of France'')] =
     Inr ([10060] @ ustr '' Error generating response: '' @ ustr ''quota'' @ [10, 10] @
          ustr ''Here are the raw search results:'' @ [10] @
          [8226, 32] @ ustr ''Search: capital of France'' @ ustr '': '' @
          ustr ''Unable to fetch live search results. This would normally search for: capital of France'')"
proof -
  have c0: "build_context (\<lambda>v. []) [] = Inr (ustr ''Here are the search results: '' @ [10, 10])"
    by (simp add: build_context_def)
  have q: "\<And>p. quota_exceeded p = Inl (APIError (ustr ''quota''))"
    by (simp add: quota_exceeded_def)
  have m: "message_of (APIError (ustr ''quota'')) = ustr ''quota''"
    by (simp add: message_of_def)
  from degraded_on_model_failure [where str_exn = message_of and
      generate_content = quota_exceeded and query = "ustr ''capital of France''", OF c0 q]
  have r0: "generate_response (\<lambda>v. []) message_of quota_exceeded (ustr ''capital of France'') [] =
     Inr ([10060] @ ustr '' Error generating response: '' @ ustr ''quota'' @ [10, 10] @
          ustr ''Here are the raw search results:'' @ [10])"
    by (auto simp: m)
  have "\<forall>r\<in>set [fallback_result (ustr ''capital of France'')].
      has_key r (ustr ''title'') \<and> has_key r (ustr ''snippet'') \<and> has_key r (ustr ''link'')"
    by (simp add: has_key_def fallback_result_def)
  then have "\<exists>c. build_context (\<lambda>v. []) [fallback_result (ustr ''capital of France'')] = Inr c"
    by (simp only: build_context_Inr_iff)
  then obtain c where
    c1: "build_context (\<lambda>v. []) [fallback_result (ustr ''capital of France'')] = Inr c" ..
  have t: "map_of (fallback_result (ustr ''capital of France'')) (ustr ''title'') =
      Some (PStr (ustr ''Search: capital of France''))"
    "map_of (fallback_result (ustr ''capital of France'')) (ustr ''snippet'') =
      Some (PStr (ustr ''Unable to fetch live search results. This would normally search for: capital of France''))"
    by (simp_all add: fallback_result_def) (simp_all add: ustr_def)
  from degraded_on_model_failure [where str_exn = message_of and
      generate_content = quota_exceeded and query = "ustr ''capital of France''", OF c1 q]
  obtain lines where l:
    "generate_response (\<lambda>v. []) message_of quota_exceeded (ustr ''capital of France'')
       [fallback_result (ustr ''capital of France'')] =
     Inr ([10060] @ ustr '' Error generating response: '' @ message_of (APIError (ustr ''quota'')) @
          [10, 10] @ ustr ''Here are the raw search results:'' @ [10] @ join [10] lines)"
    "list_all2 (\<lambda>r line. \<exists>title snippet.
         map_of r (ustr ''title'') = Some title \<and> map_of r (ustr ''snippet'') = Some snippet \<and>
         line = [8226, 32] @ format_value (\<lambda>v. []) title @ ustr '': '' @
                format_value (\<lambda>v. []) snippet)
       [fallback_result (ustr ''capital of France'')] lines"
    by blast
  from l(2) have "lines = [[8226, 32] @ ustr ''Search: capital of France'' @ ustr '': '' @
      ustr ''Unable to fetch live search results. This would normally search for: capital of France'']"
    by (auto simp: list_all2_Cons1 t format_value_def)
  with l(1) have r1: "generate_response (\<lambda>v. []) message_of quota_exceeded (ustr ''capital of France'')
       [fallback_result (ustr ''capital of France'')] =
     Inr ([10060] @ ustr '' Error generating response: '' @ ustr ''quota'' @ [10, 10] @
          ustr ''Here are the raw search results:'' @ [10] @
          [8226, 32] @ ustr ''Search: capital of France'' @ ustr '': '' @
          ustr ''Unable to fetch live search results. This would normally search for: capital of France'')"
    by (simp add: m)
  from c0 q r0 c1 r1 show ?thesis by blast
qed

section \<open>Every record can be read\<close>

text \<open>
  Claim C10: every record \<open>search_web\<close> returns, on whatever path it was made, has the
  keys \<open>title\<close>, \<open>snippet\<close> and \<open>link\<close>. So the context of the prompt and the bullet
  list can be built from the results, and \<open>generate_response\<close> returns a text and raises
  nothing, whatever the completion call does. A returned record without \<open>source\<close> is the
  first of the list and one the abstract block makes; and a record the abstract block
  makes never has that key.
\<close>

theorem results_have_fields:
  "(\<forall>r\<in>set (fst (search_web net self query n s)).
      has_key r (ustr ''title'') \<and> has_key r (ustr ''snippet'') \<and> has_key r (ustr ''link'') \<and>
      (has_key r (ustr ''source'') \<or>
       (r = hd (fst (search_web net self query n s)) \<and>
        (\<exists>data. ddg_abstract query data = Inr [r])))) \<and>
   (\<exists>context. build_context str (fst (search_web net self query n s)) = Inr context) \<and>
   (\<exists>lines. mapE (bullet str) (fst (search_web net self query n s)) = Inr lines) \<and>
   (\<exists>answer. generate_response str str_exn generate_content query'
              (fst (search_web net self query n s)) = Inr answer) \<and>
   (ddg_abstract query' data' = Inr [r'] \<longrightarrow> \<not> has_key r' (ustr ''source''))"
proof -
  let ?rs = "fst (search_web net self query n s)"
  have k: "\<forall>r\<in>set ?rs. has_key r (ustr ''title'') \<and> has_key r (ustr ''snippet'') \<and> has_key r (ustr ''link'')"
    using search_web_shape [of net self query n s] keys_has_key by blast
  have a: "\<forall>r\<in>set ?rs. has_key r (ustr ''source'') \<or>
       (r = hd ?rs \<and> (\<exists>data. ddg_abstract query data = Inr [r]))"
    using search_web_shape [of net self query n s]
    by (auto simp: has_key_keys record_keys_def)
  have c: "\<exists>context. build_context str ?rs = Inr context"
    using k unfolding build_context_Inr_iff .
  have b: "\<exists>lines. mapE (bullet str) ?rs = Inr lines"
    using mapE_bullet [of ?rs str] k by blast
  have g: "\<exists>answer. generate_response str str_exn generate_content query' ?rs = Inr answer"
    using generate_response_total [OF k] .
  have l: "ddg_abstract query' data' = Inr [r'] \<longrightarrow> \<not> has_key r' (ustr ''source'')"
    using ddg_abstract_shape [of query' data' "[r']"]
    by (auto simp: has_key_keys record_keys_def)
  from k a c b g l show ?thesis by blast
qed

lemma paris_abstract_record:
  "ddg_abstract (ustr ''capital of France'') paris_body =
     Inr [[(ustr ''title'', PStr (ustr ''Paris'')),
           (ustr ''snippet'', PStr (ustr ''Paris is the capital'' @ ustr ''...'')),
           (ustr ''link'', PStr (ustr ''https://en.wikipedia.org/wiki/Paris''))]]"
  by (simp add: ddg_abstract_def paris_body_def slice_to_def ellipsis_def ustr_def)

theorem results_have_fields_witness:
  "fst (search_web paris_net no_credentials (ustr ''capital of France'') 3 start) =
     [[(ustr ''title'', PStr (ustr ''Paris'')),
       (ustr ''snippet'', PStr (ustr ''Paris is the capital'' @ ustr ''...'')),
       (ustr ''link'', PStr (ustr ''https://en.wikipedia.org/wiki/Paris''))],
      [(ustr ''title'', PStr (ustr ''Paris, Texas'' @ ustr ''...'')),
       (ustr ''snippet'', PStr (ustr ''Paris, Texas'' @ ustr ''...'')),
       (ustr ''link'', PStr (ustr ''https://duckduckgo.com/Paris_Texas'')),
       (ustr ''source'', PStr (ustr ''DuckDuckGo''))]] \<and>
   has_key [(ustr ''title'', PStr (ustr ''Paris'')),
             (ustr ''snippet'', PStr (ustr ''Paris is the capital'' @ ustr ''...'')),
             (ustr ''link'', PStr (ustr ''https://en.wikipedia.org/wiki/Paris''))]
     (ustr ''link'') \<and>
   has_key [(ustr ''title'', PStr (ustr ''Paris, Texas'' @ ustr ''...'')),
             (ustr ''snippet'', PStr (ustr ''Paris, Texas'' @ ustr ''...'')),
             (ustr ''link'', PStr (ustr ''https://duckduckgo.com/Paris_Texas'')),
             (ustr ''source'', PStr (ustr ''DuckDuckGo''))]
     (ustr ''link'') \<and>
   has_key [(ustr ''title'', PStr (ustr ''Paris, Texas'' @ ustr ''...'')),
             (ustr ''snippet'', PStr (ustr ''Paris, Texas'' @ ustr ''...'')),
             (ustr ''link'', PStr (ustr ''https://duckduckgo.com/Paris_Texas'')),
             (ustr ''source'', PStr (ustr ''DuckDuckGo''))]
     (ustr ''source'') \<and>
   (\<exists>answer. generate_response (\<lambda>v. []) message_of quota_exceeded (ustr ''capital of France'')
       (fst (search_web paris_net no_credentials (ustr ''capital of France'') 3 start)) =
     Inr answer) \<and>
   ddg_abstract (ustr ''capital of France'') paris_body =
     Inr [[(ustr ''title'', PStr (ustr ''Paris'')),
           (ustr ''snippet'', PStr (ustr ''Paris is the capital'' @ ustr ''...'')),
           (ustr ''link'', PStr (ustr ''https://en.wikipedia.org/wiki/Paris''))]] \<and>
   \<not> has_key [(ustr ''title'', PStr (ustr ''Paris'')),
              (ustr ''snippet'', PStr (ustr ''Paris is the capital'' @ ustr ''...'')),
              (ustr ''link'', PStr (ustr ''https://en.wikipedia.org/wiki/Paris''))]
        (ustr ''source'')"
proof -
  note t = results_have_fields [where net = paris_net and self = no_credentials and
      query = "ustr ''capital of France''" and n = 3 and s = start and str = "\<lambda>v. []" and
      str_exn = message_of and generate_content = quota_exceeded and
      query' = "ustr ''capital of France''" and data' = paris_body and
      r' = "[(ustr ''title'', PStr (ustr ''Paris'')),
             (ustr ''snippet'', PStr (ustr ''Paris is the capital'' @ ustr ''...'')),
             (ustr ''link'', PStr (ustr ''https://en.wikipedia.org/wiki/Paris''))]"]
  from t have k:
    "\<forall>r\<in>set (fst (search_web paris_net no_credentials (ustr ''capital of France'') 3 start)).
      has_key r (ustr ''title'') \<and> has_key r (ustr ''snippet'') \<and> has_key r (ustr ''link'')"
    by blast
  from t have g:
    "\<exists>answer. generate_response (\<lambda>v. []) message_of quota_exceeded (ustr ''capital of France'')
       (fst (search_web paris_net no_credentials (ustr ''capital of France'') 3 start)) =
     Inr answer"
    by blast
  from t paris_abstract_record have ns:
    "\<not> has_key [(ustr ''title'', PStr (ustr ''Paris'')),
              (ustr ''snippet'', PStr (ustr ''Paris is the capital'' @ ustr ''...'')),
              (ustr ''link'', PStr (ustr ''https://en.wikipedia.org/wiki/Paris''))]
        (ustr ''source'')"
    by blast
  from k have k1:
    "has_key [(ustr ''title'', PStr (ustr ''Paris'')),
             (ustr ''snippet'', PStr (ustr ''Paris is the capital'' @ ustr ''...'')),
             (ustr ''link'', PStr (ustr ''https://en.wikipedia.org/wiki/Paris''))]
       (ustr ''link'')"
    "has_key [(ustr ''title'', PStr (ustr ''Paris, Texas'' @ ustr ''...'')),
             (ustr ''snippet'', PStr (ustr ''Paris, Texas'' @ ustr ''...'')),
             (ustr ''link'', PStr (ustr ''https://duckduckgo.com/Paris_Texas'')),
             (ustr ''source'', PStr (ustr ''DuckDuckGo''))]
       (ustr ''link'')"
    unfolding paris_results_three by simp_all
  from t have
    "\<forall>r\<in>set (fst (search_web paris_net no_credentials (ustr ''capital of France'') 3 start)).
       has_key r (ustr ''source'') \<or>
       r = hd (fst (search_web paris_net no_credentials (ustr ''capital of France'') 3 start))"
    by blast
  then have k2:
    "has_key [(ustr ''title'', PStr (ustr ''Paris, Texas'' @ ustr ''...'')),
             (ustr ''snippet'', PStr (ustr ''Paris, Texas'' @ ustr ''...'')),
             (ustr ''link'', PStr (ustr ''https://duckduckgo.com/Paris_Texas'')),
             (ustr ''source'', PStr (ustr ''DuckDuckGo''))]
       (ustr ''source'')"
    unfolding paris_results_three by simp
  from paris_results_three k1 k2 g paris_abstract_record ns show ?thesis by blast
qed

end
